theory Spec2Isabelle
  imports Main
begin

section \<open>The packaging script \<open>setup.py\<close>\<close>

text \<open>
  The repository is one Python script:
  \<^verbatim>\<open>
  from setuptools import setup, find_packages

  setup(
      name="agent-os",
      version="0.1.0",
      author="Your Name",
      description="Canonical naming and discovery system for AI agents",
      long_description=open("README.md").read(),
      long_description_content_type="text/markdown",
      url="https://github.com/yourusername/agent-os",
      packages=find_packages(),
      python_requires=">=3.8",
      install_requires=[
          "pyyaml>=6.0",
      ],
  )
  \<close>
  Python evaluates the keyword arguments of a call from left to right and calls the
  function only after all of them have a value. An exception raised on the way leaves the
  script at once: there is no \<open>try\<close> in it.
\<close>

subsection \<open>The keyword arguments\<close>

text \<open>The values passed are strings and lists of strings.\<close>

datatype pyval = Str string | StrList "string list"

text \<open>
  The keyword arguments as the dictionary that \<open>setup\<close> receives, in the order of the
  source. Two of them are computed: \<open>long_description\<close> is what reading \<open>README.md\<close>
  returned and \<open>packages\<close> is what \<open>find_packages()\<close> returned.
\<close>

type_synonym kwargs = "(string \<times> pyval) list"

definition setup_kwargs :: "string \<Rightarrow> string list \<Rightarrow> kwargs" where
  "setup_kwargs readme pkgs =
     [(''name'', Str ''agent-os''),
      (''version'', Str ''0.1.0''),
      (''author'', Str ''Your Name''),
      (''description'', Str ''Canonical naming and discovery system for AI agents''),
      (''long_description'', Str readme),
      (''long_description_content_type'', Str ''text/markdown''),
      (''url'', Str ''https://github.com/yourusername/agent-os''),
      (''packages'', StrList pkgs),
      (''python_requires'', Str ''>=3.8''),
      (''install_requires'', StrList [''pyyaml>=6.0''])]"

subsection \<open>The world outside the script\<close>

text \<open>
  Everything the script calls is outside the repository: the import of \<open>setuptools\<close>,
  the builtin \<open>open\<close>, the \<open>read\<close> method of the file it returns, \<open>find_packages\<close>
  and \<open>setup\<close>. They are parameters of the model. Each may raise (an exception of type
  \<open>'e\<close>). The import, \<open>open\<close>, \<open>read\<close> and \<open>find_packages\<close> only look at the world;
  \<open>setup\<close> is the one call that builds something, so it alone transforms the packaging
  state \<open>'s\<close>, also when it raises. The record is extensible: whatever else the world
  holds (environment variables, the clock, a source of randomness) lives in its
  \<open>more\<close> part, which the script never touches.
\<close>

record ('e, 'f, 's) externals =
  import_setuptools :: "'e option"
  open_file :: "string \<Rightarrow> 'e + 'f"
  read_file :: "'f \<Rightarrow> 'e + string"
  find_packages :: "'e + string list"
  setuptools_setup :: "kwargs \<Rightarrow> 's \<Rightarrow> 'e option \<times> 's"

text \<open>The calls a run makes, in order, and how the run ends.\<close>

datatype call =
    Call_import
  | Call_open string
  | Call_read
  | Call_find_packages
  | Call_setup kwargs

datatype 'e outcome = Returned | Raised 'e

record ('e, 's) run =
  outcome :: "'e outcome"
  calls :: "call list"
  final :: "'s"

subsection \<open>The script\<close>

definition run_script :: "('e, 'f, 's, 'z) externals_scheme \<Rightarrow> 's \<Rightarrow> ('e, 's) run" where
  "run_script ext s =
     (case import_setuptools ext of
        Some e \<Rightarrow> \<lparr>outcome = Raised e, calls = [Call_import], final = s\<rparr>
      | None \<Rightarrow>
     (case open_file ext ''README.md'' of
        Inl e \<Rightarrow>
          \<lparr>outcome = Raised e, calls = [Call_import, Call_open ''README.md''], final = s\<rparr>
      | Inr f \<Rightarrow>
     (case read_file ext f of
        Inl e \<Rightarrow>
          \<lparr>outcome = Raised e,
           calls = [Call_import, Call_open ''README.md'', Call_read], final = s\<rparr>
      | Inr readme \<Rightarrow>
     (case find_packages ext of
        Inl e \<Rightarrow>
          \<lparr>outcome = Raised e,
           calls = [Call_import, Call_open ''README.md'', Call_read, Call_find_packages],
           final = s\<rparr>
      | Inr pkgs \<Rightarrow>
          (let (r, s') = setuptools_setup ext (setup_kwargs readme pkgs) s
           in \<lparr>outcome = (case r of None \<Rightarrow> Returned | Some e \<Rightarrow> Raised e),
               calls = [Call_import, Call_open ''README.md'', Call_read, Call_find_packages,
                        Call_setup (setup_kwargs readme pkgs)],
               final = s'\<rparr>)))))"

text \<open>The arguments of the calls to \<open>setup\<close> among the calls of a run.\<close>

fun setup_calls :: "call list \<Rightarrow> kwargs list" where
  "setup_calls [] = []"
| "setup_calls (Call_setup kw # cs) = kw # setup_calls cs"
| "setup_calls (_ # cs) = setup_calls cs"

subsection \<open>Concrete worlds\<close>

text \<open>
  Worlds to run the script in. Exceptions are named as Python names them, a file handle
  is a number, and the packaging state is the list of the metadata built so far.
\<close>

datatype py_exception =
    ImportError
  | FileNotFoundError
  | PermissionError
  | UnicodeDecodeError
  | OSError
  | SetupError

text \<open>A checkout with a README and one package, where \<open>setup\<close> records what it is given.\<close>

definition env_ok :: "(py_exception, nat, kwargs list) externals" where
  "env_ok =
     \<lparr>import_setuptools = None,
      open_file = (\<lambda>path. if path = ''README.md'' then Inr 3 else Inl FileNotFoundError),
      read_file = (\<lambda>f. if f = 3 then Inr ''# agent-os'' else Inl OSError),
      find_packages = Inr [''agent_os''],
      setuptools_setup = (\<lambda>kw s. (None, s @ [kw]))\<rparr>"

text \<open>The same checkout without the README.\<close>

definition env_no_readme :: "(py_exception, nat, kwargs list) externals" where
  "env_no_readme = env_ok\<lparr>open_file := (\<lambda>path. Inl FileNotFoundError)\<rparr>"

text \<open>The README opens but its bytes do not decode.\<close>

definition env_unreadable :: "(py_exception, nat, kwargs list) externals" where
  "env_unreadable = env_ok\<lparr>read_file := (\<lambda>f. Inl UnicodeDecodeError)\<rparr>"

text \<open>\<open>setuptools\<close> is not installed.\<close>

definition env_no_setuptools :: "(py_exception, nat, kwargs list) externals" where
  "env_no_setuptools = env_ok\<lparr>import_setuptools := Some ImportError\<rparr>"

text \<open>
  Another machine: the same README text and the same package under other file handles,
  a \<open>setup\<close> that fails, and environment variables and a clock in the \<open>more\<close> part.
\<close>

definition env_elsewhere ::
  "(py_exception, string, nat, (string \<times> string) list \<times> nat) externals_scheme" where
  "env_elsewhere =
     \<lparr>import_setuptools = None,
      open_file = (\<lambda>path. if path = ''README.md'' then Inr ''fd7'' else Inl PermissionError),
      read_file = (\<lambda>f. Inr ''# agent-os''),
      find_packages = Inr [''agent_os''],
      setuptools_setup = (\<lambda>kw s. (Some SetupError, Suc s)),
      \<dots> = ([(''HOME'', ''/home/dev''), (''SOURCE_DATE_EPOCH'', ''0'')], 1700000000)\<rparr>"

subsection \<open>How Python reads the README and finds the packages\<close>












subsection \<open>The fields the specification lists\<close>

text \<open>
  The specification's data model names seven metadata fields: name, version, author
  string, description string, URL, minimum interpreter version and a single dependency
  specifier. These are their keywords.
\<close>

definition spec_metadata_fields :: "string list" where
  "spec_metadata_fields =
     [''name'', ''version'', ''author'', ''description'', ''url'', ''python_requires'',
      ''install_requires'']"

subsection \<open>The packaging tool's notation for names, versions and requirements\<close>

text \<open>
  What a name, a version or a requirement string means is fixed by the packaging
  standards that \<open>setuptools\<close> implements (PEP 508 for names and requirements, PEP 440
  for versions and version specifiers), not by the repository. The recognisers below
  transcribe the part of those grammars that has no whitespace, no extras, no markers and
  no pre-, post- or development releases: every string they accept is valid for the
  tool, while the tool accepts more.
\<close>

definition is_digit :: "char \<Rightarrow> bool" where
  "is_digit c = (c \<in> set ''0123456789'')"

definition is_alnum :: "char \<Rightarrow> bool" where
  "is_alnum c =
     (c \<in> set ''abcdefghijklmnopqrstuvwxyzABCDEFGHIJKLMNOPQRSTUVWXYZ0123456789'')"

definition is_name_char :: "char \<Rightarrow> bool" where
  "is_name_char c = (is_alnum c \<or> c \<in> set ''._-'')"

text \<open>
  A distribution name (PEP 508): letters, digits, \<open>.\<close>, \<open>_\<close> and \<open>-\<close>, beginning and
  ending with a letter or a digit.
\<close>

definition valid_dist_name :: "string \<Rightarrow> bool" where
  "valid_dist_name s =
     (s \<noteq> [] \<and> is_alnum (hd s) \<and> is_alnum (last s) \<and> list_all is_name_char s)"

definition digit_val :: "char \<Rightarrow> nat" where
  "digit_val c = length (takeWhile (\<lambda>d. d \<noteq> c) ''0123456789'')"

definition nat_of_digits :: "string \<Rightarrow> nat option" where
  "nat_of_digits s =
     (if s \<noteq> [] \<and> list_all is_digit s
      then Some (foldl (\<lambda>n c. 10 * n + digit_val c) 0 s) else None)"

text \<open>Python's \<open>str.split(sep)\<close> for a one-character separator.\<close>

fun split_on :: "char \<Rightarrow> string \<Rightarrow> string list" where
  "split_on d [] = [[]]"
| "split_on d (c # cs) =
     (if c = d then [] # split_on d cs
      else (case split_on d cs of [] \<Rightarrow> [[c]] | w # ws \<Rightarrow> (c # w) # ws))"

text \<open>
  The release segment of a version (PEP 440): numbers separated by dots, such as
  \<open>0.1.0\<close>.
\<close>

definition parse_version :: "string \<Rightarrow> nat list option" where
  "parse_version s = those (map nat_of_digits (split_on CHR ''.'' s))"

text \<open>
  Releases are compared number by number, a missing number counting as zero, so that
  \<open>3.8\<close> and \<open>3.8.0\<close> are the same release.
\<close>

fun version_le :: "nat list \<Rightarrow> nat list \<Rightarrow> bool" where
  "version_le [] [] = True"
| "version_le [] (y # ys) = True"
| "version_le (x # xs) [] = (x = 0 \<and> version_le xs [])"
| "version_le (x # xs) (y # ys) = (x < y \<or> (x = y \<and> version_le xs ys))"

text \<open>The comparison operators of a version specifier.\<close>

datatype comparison = Compatible | Equal | NotEqual | LessEq | GreaterEq | Less | Greater

type_synonym clause = "comparison \<times> nat list"

definition with_version :: "comparison \<Rightarrow> string \<Rightarrow> clause option" where
  "with_version cmp s = map_option (Pair cmp) (parse_version s)"

definition parse_clause :: "string \<Rightarrow> clause option" where
  "parse_clause s =
     (if take 2 s = ''~='' then
        (case with_version Compatible (drop 2 s) of
           Some (cmp, v) \<Rightarrow> if 2 \<le> length v then Some (cmp, v) else None
         | None \<Rightarrow> None)
      else if take 2 s = ''=='' then with_version Equal (drop 2 s)
      else if take 2 s = ''!='' then with_version NotEqual (drop 2 s)
      else if take 2 s = ''<='' then with_version LessEq (drop 2 s)
      else if take 2 s = ''>='' then with_version GreaterEq (drop 2 s)
      else if take 1 s = ''<'' then with_version Less (drop 1 s)
      else if take 1 s = ''>'' then with_version Greater (drop 1 s)
      else None)"

text \<open>A version specifier is a comma-separated list of clauses.\<close>

definition parse_specifier :: "string \<Rightarrow> clause list option" where
  "parse_specifier s = those (map parse_clause (split_on CHR '','' s))"

text \<open>
  Which releases a clause admits. \<open>~=V.N\<close> admits the releases from \<open>V.N\<close> on that
  still begin with \<open>V\<close>.
\<close>

definition begins_with :: "nat list \<Rightarrow> nat list \<Rightarrow> bool" where
  "begins_with p w = (take (length p) (w @ replicate (length p) 0) = p)"

fun clause_allows :: "clause \<Rightarrow> nat list \<Rightarrow> bool" where
  "clause_allows (GreaterEq, v) w = version_le v w"
| "clause_allows (LessEq, v) w = version_le w v"
| "clause_allows (Greater, v) w = (\<not> version_le w v)"
| "clause_allows (Less, v) w = (\<not> version_le v w)"
| "clause_allows (Equal, v) w = (version_le v w \<and> version_le w v)"
| "clause_allows (NotEqual, v) w = (\<not> (version_le v w \<and> version_le w v))"
| "clause_allows (Compatible, v) w = (version_le v w \<and> begins_with (butlast v) w)"

definition specifier_allows :: "string \<Rightarrow> nat list \<Rightarrow> bool" where
  "specifier_allows s w =
     (case parse_specifier s of
        None \<Rightarrow> False
      | Some cs \<Rightarrow> list_all (\<lambda>c. clause_allows c w) cs)"

text \<open>
  A requirement (PEP 508): a distribution name, then nothing or a version specifier.
\<close>

definition parse_requirement :: "string \<Rightarrow> (string \<times> clause list) option" where
  "parse_requirement s =
     (let n = takeWhile is_name_char s; rest = dropWhile is_name_char s
      in if \<not> valid_dist_name n then None
         else if rest = [] then Some (n, [])
         else map_option (Pair n) (parse_specifier rest))"

section \<open>Properties\<close>

subsection \<open>The README read\<close>

text \<open>
  C1: the build succeeds only if \<open>README.md\<close> can be opened and read. When
  \<open>open("README.md")\<close> raises, or the \<open>read\<close> of the opened file raises, the run ends
  with that very exception (the call is reached once the import has succeeded); and a
  run that returns normally has opened and read the file.
\<close>

theorem readme_required:
  "(import_setuptools ext = None \<and> open_file ext ''README.md'' = Inl e
      \<longrightarrow> outcome (run_script ext s) = Raised e)
   \<and> (import_setuptools ext = None \<and> open_file ext ''README.md'' = Inr f
        \<and> read_file ext f = Inl e
      \<longrightarrow> outcome (run_script ext s) = Raised e)
   \<and> (outcome (run_script ext s) = Returned
      \<longrightarrow> (\<exists>h readme. open_file ext ''README.md'' = Inr h \<and> read_file ext h = Inr readme))"
  by (auto simp: run_script_def split: option.splits sum.splits prod.splits)

theorem readme_required_witness:
  "outcome (run_script env_no_readme []) = Raised FileNotFoundError
   \<and> outcome (run_script env_unreadable []) = Raised UnicodeDecodeError
   \<and> outcome (run_script env_ok []) = Returned
   \<and> (\<exists>h readme. open_file env_ok ''README.md'' = Inr h \<and> read_file env_ok h = Inr readme)"
proof -
  have a: "import_setuptools env_no_readme = None
           \<and> open_file env_no_readme ''README.md'' = Inl FileNotFoundError"
    by (simp add: env_no_readme_def env_ok_def)
  have b: "import_setuptools env_unreadable = None
           \<and> open_file env_unreadable ''README.md'' = Inr 3
           \<and> read_file env_unreadable 3 = Inl UnicodeDecodeError"
    by (simp add: env_unreadable_def env_ok_def)
  have c: "outcome (run_script env_ok []) = Returned"
    by (simp add: run_script_def env_ok_def)
  show ?thesis
    using a b c
      readme_required [of env_no_readme FileNotFoundError "[]" 3]
      readme_required [of env_unreadable UnicodeDecodeError "[]" 3]
      readme_required [of env_ok FileNotFoundError "[]" 3]
    by simp
qed

text \<open>
  C8: the README is read while the arguments are evaluated, before \<open>setup\<close> is called.
  When opening or reading it raises, the exception leaves the script, \<open>setup\<close> is not
  among the calls of the run, and the packaging state is the one the run started in.
  Whenever \<open>setup\<close> is called, it is the last call and the open and the read of
  \<open>README.md\<close> come before it.
\<close>

theorem readme_failure_skips_setup:
  "(import_setuptools ext = None
    \<and> (open_file ext ''README.md'' = Inl e
        \<or> (open_file ext ''README.md'' = Inr f \<and> read_file ext f = Inl e))
      \<longrightarrow> outcome (run_script ext s) = Raised e
          \<and> setup_calls (calls (run_script ext s)) = []
          \<and> final (run_script ext s) = s)
   \<and> (Call_setup kw \<in> set (calls (run_script ext s))
      \<longrightarrow> (\<exists>rest. calls (run_script ext s)
                   = Call_import # Call_open ''README.md'' # Call_read # rest @ [Call_setup kw]))"
  by (auto simp: run_script_def split: option.splits sum.splits prod.splits)

theorem readme_failure_skips_setup_witness:
  "outcome (run_script env_no_readme []) = Raised FileNotFoundError
   \<and> setup_calls (calls (run_script env_no_readme [])) = []
   \<and> final (run_script env_no_readme []) = []
   \<and> outcome (run_script env_unreadable []) = Raised UnicodeDecodeError
   \<and> setup_calls (calls (run_script env_unreadable [])) = []
   \<and> final (run_script env_unreadable []) = []
   \<and> (\<exists>rest. calls (run_script env_ok [])
          = Call_import # Call_open ''README.md'' # Call_read # rest
            @ [Call_setup (setup_kwargs ''# agent-os'' [''agent_os''])])"
proof -
  have a: "import_setuptools env_no_readme = None
           \<and> open_file env_no_readme ''README.md'' = Inl FileNotFoundError"
    by (simp add: env_no_readme_def env_ok_def)
  have b: "import_setuptools env_unreadable = None
           \<and> open_file env_unreadable ''README.md'' = Inr 3
           \<and> read_file env_unreadable 3 = Inl UnicodeDecodeError"
    by (simp add: env_unreadable_def env_ok_def)
  have c: "Call_setup (setup_kwargs ''# agent-os'' [''agent_os''])
           \<in> set (calls (run_script env_ok []))"
    by (simp add: run_script_def env_ok_def)
  show ?thesis
    using a b c
      readme_failure_skips_setup [of env_no_readme FileNotFoundError 3 "[]"]
      readme_failure_skips_setup [of env_unreadable UnicodeDecodeError 3 "[]"]
      readme_failure_skips_setup [of env_ok FileNotFoundError 3 "[]"
        "setup_kwargs ''# agent-os'' [''agent_os'']"]
    by simp
qed

subsection \<open>The call to \<open>setup\<close>\<close>

text \<open>
  C4, as stated: every execution is exactly one call to \<open>setup\<close> with literal arguments.
  This fails. Without a README the run makes no call to \<open>setup\<close>, and the
  \<open>long_description\<close> argument follows the content of the README, so it is no literal.
\<close>

theorem script_calls_counterexample:
  "length (setup_calls (calls (run_script env_no_readme []))) \<noteq> 1
   \<and> map_of (setup_kwargs ''# agent-os'' [''agent_os'']) ''long_description''
       \<noteq> map_of (setup_kwargs ''# Agent OS'' [''agent_os'']) ''long_description''"
  by (simp add: run_script_def env_no_readme_def env_ok_def setup_kwargs_def)

text \<open>
  C4, amended: the script is straight-line code with no error handling of its own. A run
  whose import, open, read and \<open>find_packages\<close> all succeed makes these calls in this
  order and then exactly one call to \<open>setup\<close>, with the dictionary \<open>setup_kwargs\<close>; it
  ends as that call ends, in the state that call leaves. A run in which one of them
  raises makes no call to \<open>setup\<close>, ends with that exception unchanged, and leaves the
  state alone. No run calls \<open>setup\<close> twice.
\<close>

theorem one_setup_call_or_none:
  "(import_setuptools ext = None \<and> open_file ext ''README.md'' = Inr f
    \<and> read_file ext f = Inr readme \<and> find_packages ext = Inr pkgs
      \<longrightarrow> calls (run_script ext s)
            = [Call_import, Call_open ''README.md'', Call_read, Call_find_packages,
               Call_setup (setup_kwargs readme pkgs)]
          \<and> outcome (run_script ext s)
            = (case fst (setuptools_setup ext (setup_kwargs readme pkgs) s) of
                 None \<Rightarrow> Returned | Some x \<Rightarrow> Raised x)
          \<and> final (run_script ext s)
            = snd (setuptools_setup ext (setup_kwargs readme pkgs) s))
   \<and> (import_setuptools ext = Some e
       \<or> (import_setuptools ext = None
           \<and> (open_file ext ''README.md'' = Inl e
               \<or> (open_file ext ''README.md'' = Inr f
                   \<and> (read_file ext f = Inl e
                       \<or> (read_file ext f = Inr readme \<and> find_packages ext = Inl e)))))
      \<longrightarrow> setup_calls (calls (run_script ext s)) = []
          \<and> outcome (run_script ext s) = Raised e
          \<and> final (run_script ext s) = s)
   \<and> length (setup_calls (calls (run_script ext s))) \<le> 1"
  by (auto simp: run_script_def split: option.splits sum.splits prod.splits)

theorem one_setup_call_or_none_witness:
  "calls (run_script env_ok [])
     = [Call_import, Call_open ''README.md'', Call_read, Call_find_packages,
        Call_setup (setup_kwargs ''# agent-os'' [''agent_os''])]
   \<and> outcome (run_script env_ok []) = Returned
   \<and> final (run_script env_ok []) = [setup_kwargs ''# agent-os'' [''agent_os'']]
   \<and> setup_calls (calls (run_script env_no_setuptools [])) = []
   \<and> outcome (run_script env_no_setuptools []) = Raised ImportError
   \<and> setup_calls (calls (run_script env_no_readme [])) = []
   \<and> outcome (run_script env_no_readme []) = Raised FileNotFoundError
   \<and> final (run_script env_no_readme []) = []"
proof -
  have a: "import_setuptools env_ok = None \<and> open_file env_ok ''README.md'' = Inr 3
           \<and> read_file env_ok 3 = Inr ''# agent-os''
           \<and> find_packages env_ok = Inr [''agent_os'']"
    by (simp add: env_ok_def)
  have a': "setuptools_setup env_ok (setup_kwargs ''# agent-os'' [''agent_os'']) []
            = (None, [setup_kwargs ''# agent-os'' [''agent_os'']])"
    by (simp add: env_ok_def)
  have b: "import_setuptools env_no_setuptools = Some ImportError"
    by (simp add: env_no_setuptools_def env_ok_def)
  have c: "import_setuptools env_no_readme = None
           \<and> open_file env_no_readme ''README.md'' = Inl FileNotFoundError"
    by (simp add: env_no_readme_def env_ok_def)
  show ?thesis
    using a a' b c
      one_setup_call_or_none [where ext = env_ok and f = 3 and readme = "''# agent-os''"
        and pkgs = "[''agent_os'']" and s = "[]" and e = ImportError]
      one_setup_call_or_none [where ext = env_no_setuptools and f = 3 and readme = "[]"
        and pkgs = "[]" and s = "[]" and e = ImportError]
      one_setup_call_or_none [where ext = env_no_readme and f = 3 and readme = "[]"
        and pkgs = "[]" and s = "[]" and e = FileNotFoundError]
    by simp
qed




subsection \<open>The metadata\<close>

text \<open>
  C2: the package declares exactly one dependency, \<open>pyyaml\<close> with the constraint
  \<open>>=6.0\<close>: the \<open>install_requires\<close> argument is the one-element list
  \<open>["pyyaml>=6.0"]\<close>, whatever the README holds and whatever packages are found.
\<close>

theorem install_requires_exact:
  "map_of (setup_kwargs readme pkgs) ''install_requires'' = Some (StrList [''pyyaml>=6.0''])
   \<and> (\<exists>deps. map_of (setup_kwargs readme pkgs) ''install_requires'' = Some (StrList deps)
        \<and> length deps = 1)"
  by (simp add: setup_kwargs_def)

text \<open>
  C10: the author is the placeholder \<open>Your Name\<close>, the url is the placeholder
  \<open>https://github.com/yourusername/agent-os\<close>, and \<open>python_requires\<close> is the literal
  \<open>>=3.8\<close>.
\<close>

theorem placeholder_metadata:
  "map_of (setup_kwargs readme pkgs) ''author'' = Some (Str ''Your Name'')
   \<and> map_of (setup_kwargs readme pkgs) ''url''
       = Some (Str ''https://github.com/yourusername/agent-os'')
   \<and> map_of (setup_kwargs readme pkgs) ''python_requires'' = Some (Str ''>=3.8'')"
  by (simp add: setup_kwargs_def)

text \<open>
  C5, as stated: the only data are the seven literal fields that the specification lists.
  This fails. The dictionary also holds \<open>long_description_content_type\<close>, a literal that is
  not in the list, and \<open>long_description\<close>, which is not in the list and is no literal: it
  differs between two READMEs.
\<close>

theorem metadata_fields_counterexample:
  "''long_description_content_type''
     \<in> set (map fst (setup_kwargs ''# agent-os'' [''agent_os'']))
   \<and> map_of (setup_kwargs ''# agent-os'' [''agent_os'']) ''long_description_content_type''
       = Some (Str ''text/markdown'')
   \<and> ''long_description_content_type'' \<notin> set spec_metadata_fields
   \<and> map_of (setup_kwargs ''# agent-os'' [''agent_os'']) ''long_description''
       \<noteq> map_of (setup_kwargs ''# Agent OS'' [''agent_os'']) ''long_description''
   \<and> ''long_description'' \<notin> set spec_metadata_fields"
  by (simp add: setup_kwargs_def spec_metadata_fields_def)

text \<open>
  C5, amended: the data are a flat dictionary of ten keyword arguments. Eight are
  literals: name, version, author, description (the string
  \<open>Canonical naming and discovery system for AI agents\<close>),
  \<open>long_description_content_type\<close>, url, \<open>python_requires\<close> and \<open>install_requires\<close> with its
  single specifier. Two are computed: \<open>long_description\<close> is the content of the README and
  \<open>packages\<close> is the result of \<open>find_packages\<close>. The script does nothing with the
  dictionary but pass it to \<open>setup\<close>: the run ends as \<open>setup\<close> ends on it.
\<close>

theorem metadata_fields:
  "map fst (setup_kwargs readme pkgs)
     = [''name'', ''version'', ''author'', ''description'', ''long_description'',
        ''long_description_content_type'', ''url'', ''packages'', ''python_requires'',
        ''install_requires'']
   \<and> map_of (setup_kwargs readme pkgs) ''name'' = Some (Str ''agent-os'')
   \<and> map_of (setup_kwargs readme pkgs) ''version'' = Some (Str ''0.1.0'')
   \<and> map_of (setup_kwargs readme pkgs) ''author'' = Some (Str ''Your Name'')
   \<and> map_of (setup_kwargs readme pkgs) ''description''
       = Some (Str ''Canonical naming and discovery system for AI agents'')
   \<and> map_of (setup_kwargs readme pkgs) ''long_description_content_type''
       = Some (Str ''text/markdown'')
   \<and> map_of (setup_kwargs readme pkgs) ''url''
       = Some (Str ''https://github.com/yourusername/agent-os'')
   \<and> map_of (setup_kwargs readme pkgs) ''python_requires'' = Some (Str ''>=3.8'')
   \<and> map_of (setup_kwargs readme pkgs) ''install_requires''
       = Some (StrList [''pyyaml>=6.0''])
   \<and> map_of (setup_kwargs readme pkgs) ''long_description'' = Some (Str readme)
   \<and> map_of (setup_kwargs readme pkgs) ''packages'' = Some (StrList pkgs)
   \<and> (import_setuptools ext = None \<and> open_file ext ''README.md'' = Inr f
       \<and> read_file ext f = Inr readme \<and> find_packages ext = Inr pkgs
      \<longrightarrow> setup_calls (calls (run_script ext s)) = [setup_kwargs readme pkgs]
          \<and> (case outcome (run_script ext s) of Returned \<Rightarrow> None | Raised x \<Rightarrow> Some x,
              final (run_script ext s))
            = setuptools_setup ext (setup_kwargs readme pkgs) s)"
proof -
  have "import_setuptools ext = None \<and> open_file ext ''README.md'' = Inr f
        \<and> read_file ext f = Inr readme \<and> find_packages ext = Inr pkgs
      \<longrightarrow> setup_calls (calls (run_script ext s)) = [setup_kwargs readme pkgs]
          \<and> (case outcome (run_script ext s) of Returned \<Rightarrow> None | Raised x \<Rightarrow> Some x,
              final (run_script ext s))
            = setuptools_setup ext (setup_kwargs readme pkgs) s"
    by (auto simp: run_script_def split: option.splits sum.splits prod.splits)
  then show ?thesis
    by (simp add: setup_kwargs_def)
qed

theorem metadata_fields_witness:
  "map fst (setup_kwargs ''# agent-os'' [''agent_os''])
     = [''name'', ''version'', ''author'', ''description'', ''long_description'',
        ''long_description_content_type'', ''url'', ''packages'', ''python_requires'',
        ''install_requires'']
   \<and> setup_calls (calls (run_script env_elsewhere 0))
       = [setup_kwargs ''# agent-os'' [''agent_os'']]
   \<and> outcome (run_script env_elsewhere 0) = Raised SetupError
   \<and> final (run_script env_elsewhere 0) = 1"
proof -
  have b: "import_setuptools env_elsewhere = None
           \<and> open_file env_elsewhere ''README.md'' = Inr ''fd7''
           \<and> read_file env_elsewhere ''fd7'' = Inr ''# agent-os''
           \<and> find_packages env_elsewhere = Inr [''agent_os'']"
    by (simp add: env_elsewhere_def)
  have c: "setuptools_setup env_elsewhere (setup_kwargs ''# agent-os'' [''agent_os'']) 0
           = (Some SetupError, 1)"
    by (simp add: env_elsewhere_def)
  show ?thesis
    using b c
      metadata_fields [of "''# agent-os''" "[''agent_os'']" env_elsewhere "''fd7''" 0]
    by (auto split: outcome.splits)
qed

subsection \<open>The metadata under the packaging tool's notation\<close>

text \<open>
  The order of releases is transitive.
\<close>

lemma version_le_nil: "version_le xs [] \<Longrightarrow> version_le xs ys"
  by (induction xs ys rule: version_le.induct) auto

lemma version_le_trans: "version_le a b \<Longrightarrow> version_le b c \<Longrightarrow> version_le a c"
proof (induction a b arbitrary: c rule: version_le.induct)
  case 1
  then show ?case by (cases c) simp_all
next
  case (2 y ys)
  then show ?case by (cases c) simp_all
next
  case (3 x xs)
  then show ?case
  proof (cases c)
    case Nil
    with 3 show ?thesis by simp
  next
    case (Cons z zs)
    from 3 have "x = 0" and "version_le xs []" by simp_all
    then have "version_le xs zs" using version_le_nil by blast
    with \<open>x = 0\<close> Cons show ?thesis by (cases "z = 0") simp_all
  qed
next
  case (4 x xs y ys)
  show ?case
  proof (cases c)
    case Nil
    with 4(3) have y0: "y = 0" and ys: "version_le ys []" by simp_all
    with 4(2) have "x = 0" and "version_le xs ys" by simp_all
    with 4(1) ys have "version_le xs []" by simp
    with \<open>x = 0\<close> Nil show ?thesis by simp
  next
    case (Cons z zs)
    with 4(2,3) consider "x < z" | "x = y" "y = z" "version_le xs ys" "version_le ys zs"
      by auto
    then show ?thesis
    proof cases
      case 1
      with Cons show ?thesis by simp
    next
      case 2
      with 4(1) have "version_le xs zs" by simp
      with 2 Cons show ?thesis by simp
    qed
  qed
qed

lemma parse_specifier_3_8: "parse_specifier ''>=3.8'' = Some [(GreaterEq, [3, 8])]"
  by code_simp

lemma specifier_allows_3_8: "specifier_allows ''>=3.8'' w = version_le [3, 8] w"
  by (simp add: specifier_allows_def parse_specifier_3_8)

text \<open>
  C3: \<open>python_requires\<close> is a lower bound only. The literal \<open>>=3.8\<close> is a single clause
  with the operator \<open>>=\<close>; it admits exactly the releases from 3.8 on, so every release
  above an admitted one is admitted too.
\<close>

theorem python_requires_lower_bound_only:
  "map_of (setup_kwargs readme pkgs) ''python_requires'' = Some (Str ''>=3.8'')
   \<and> parse_specifier ''>=3.8'' = Some [(GreaterEq, [3, 8])]
   \<and> specifier_allows ''>=3.8'' w = version_le [3, 8] w
   \<and> (specifier_allows ''>=3.8'' v \<and> version_le v w \<longrightarrow> specifier_allows ''>=3.8'' w)"
proof -
  have "map_of (setup_kwargs readme pkgs) ''python_requires'' = Some (Str ''>=3.8'')"
    by (simp add: setup_kwargs_def)
  moreover have "specifier_allows ''>=3.8'' v \<and> version_le v w
                 \<longrightarrow> specifier_allows ''>=3.8'' w"
    using version_le_trans [of "[3, 8]" v w] by (simp only: specifier_allows_3_8) blast
  ultimately show ?thesis
    using parse_specifier_3_8 specifier_allows_3_8 by blast
qed

theorem python_requires_lower_bound_only_witness:
  "specifier_allows ''>=3.8'' [3, 8] \<and> version_le [3, 8] [4, 0, 1]
   \<and> specifier_allows ''>=3.8'' [4, 0, 1] \<and> \<not> specifier_allows ''>=3.8'' [3, 7, 9]"
proof -
  have a: "specifier_allows ''>=3.8'' [3, 8]"
    by (simp add: specifier_allows_3_8)
  have b: "version_le [3, 8] [4, 0, 1]"
    by simp
  have c: "\<not> specifier_allows ''>=3.8'' [3, 7, 9]"
    by (simp add: specifier_allows_3_8)
  show ?thesis
    using a b c python_requires_lower_bound_only [of "[]" "[]" "[4, 0, 1]" "[3, 8]"]
    by blast
qed

text \<open>
  C6: the name \<open>agent-os\<close> is a valid distribution name, the version \<open>0.1.0\<close> is a
  valid version (the release 0.1.0), and the dependency \<open>pyyaml>=6.0\<close> is a valid
  requirement: the distribution \<open>pyyaml\<close> with the single clause \<open>>=6.0\<close>.
\<close>

theorem metadata_syntactically_valid:
  "map_of (setup_kwargs readme pkgs) ''name'' = Some (Str ''agent-os'')
   \<and> valid_dist_name ''agent-os''
   \<and> map_of (setup_kwargs readme pkgs) ''version'' = Some (Str ''0.1.0'')
   \<and> parse_version ''0.1.0'' = Some [0, 1, 0]
   \<and> map_of (setup_kwargs readme pkgs) ''install_requires''
       = Some (StrList [''pyyaml>=6.0''])
   \<and> parse_requirement ''pyyaml>=6.0'' = Some (''pyyaml'', [(GreaterEq, [6, 0])])"
proof -
  have "valid_dist_name ''agent-os''"
    by code_simp
  moreover have "parse_version ''0.1.0'' = Some [0, 1, 0]"
    by code_simp
  moreover have "parse_requirement ''pyyaml>=6.0'' = Some (''pyyaml'', [(GreaterEq, [6, 0])])"
    by code_simp
  ultimately show ?thesis
    by (simp add: setup_kwargs_def)
qed

end
